theory Spec2Isabelle
  imports Complex_Main "HOL-Library.Char_ord" "HOL-Library.List_Lexorder"
begin

section \<open>The MACROPAD hotkeys program (code.py)\<close>

text \<open>
  The program drives hardware through the \<open>macropad\<close> object, the display group and
  \<open>print\<close>. The model records every such call, in program order, as one element of a
  trace of actions; the calls themselves are taken to return normally. What the program
  reads (the encoder position, the key event, the directory listing, the outcome of
  importing a macro file, the value returned by the game) is an argument of the function
  that models the reading code.
\<close>

subsection \<open>Data\<close>

text \<open>
  The exception classes the program names in its \<open>except\<close> clause, and some it does not
  name. A subclass is identified with the listed class that catches it.
\<close>

datatype exn =
    SyntaxError | ImportError | AttributeError | KeyError | NameError | IndexError | TypeError
  | ValueError | ZeroDivisionError | OSError | MemoryError | RuntimeError

text \<open>
  An element of a list item of a key sequence: the inner loop tests \<open>isinstance(code, int)\<close>
  and \<open>isinstance(code, float)\<close>; anything else passes through both tests.
\<close>

datatype code = CodeInt int | CodeFloat real | CodeOther

text \<open>
  A dict item of a key sequence. The program looks at the keys \<open>'buttons'\<close>, \<open>'x'\<close>,
  \<open>'y'\<close>, \<open>'wheel'\<close>, \<open>'tone'\<close> and \<open>'play'\<close>; a key that is absent is \<open>None\<close> here.
\<close>

record mouse =
  m_buttons :: "int option"
  m_x :: "int option"
  m_y :: "int option"
  m_wheel :: "int option"
  m_tone :: "int option"
  m_play :: "string option"

text \<open>
  An item of a key sequence, one constructor per branch of the \<open>isinstance\<close> chain
  (\<open>int\<close>, \<open>float\<close>, \<open>str\<close>, \<open>list\<close>, \<open>dict\<close>) and one for a value of any other type, for
  which no branch is taken. A duration is only handed on to \<open>time.sleep\<close>.
\<close>

datatype item =
    KeyCode int
  | Delay real
  | TypeText string
  | MediaCodes "code list"
  | MouseAction mouse
  | OtherItem

text \<open>A macro is the tuple \<open>(color, label, sequence)\<close>.\<close>

type_synonym macro = "int \<times> string \<times> item list"

record App =
  name :: string
  macros :: "macro list"

text \<open>The texts the program prints.\<close>

datatype message =
    Load_error string exn
  | Starting_game
  | Exiting_game
  | Skipping_game nat

datatype action =
    Keyboard_press int
  | Keyboard_release int
  | Keyboard_release_all
  | Sleep real
  | Layout_write string
  | Consumer_press int
  | Consumer_release
  | Mouse_press int
  | Mouse_release int
  | Mouse_release_all
  | Mouse_move int int int
  | Start_tone int
  | Stop_tone
  | Play_file string
  | Set_text nat string
  | Set_rect_fill int
  | Set_pixel nat int
  | Pixels_show
  | Display_refresh
  | Set_rotation int
  | Set_root_group_macro_menu
  | Run_game
  | Print message

text \<open>
  A key event: \<open>event.key_number\<close> (the key matrix numbers its keys from 0) and
  \<open>event.pressed\<close>.
\<close>

record event =
  key_number :: nat
  pressed :: bool

text \<open>The variables of the main loop.\<close>

record state =
  app_index :: nat
  last_position :: "int option"


definition GAME_KEY :: nat where
  "GAME_KEY = 11"

subsection \<open>App.switch\<close>

definition switch_key :: "App \<Rightarrow> nat \<Rightarrow> action list" where
  "switch_key a i =
     (if i < length (macros a)
      then [Set_pixel i (fst (macros a ! i)), Set_text i (fst (snd (macros a ! i)))]
      else [Set_pixel i 0, Set_text i ''''])"

definition switch :: "App \<Rightarrow> action list" where
  "switch a =
     [Set_text 13 (name a), Set_rect_fill (if name a \<noteq> [] then 0xFFFFFF else 0x000000)]
     @ concat (map (switch_key a) [0..<12])
     @ [Keyboard_release_all, Consumer_release, Mouse_release_all, Stop_tone,
        Pixels_show, Display_refresh]"

subsection \<open>The key sequence interpreter\<close>

fun press_code :: "code \<Rightarrow> action list" where
  "press_code (CodeInt c) = [Consumer_release, Consumer_press c]"
| "press_code (CodeFloat d) = [Sleep d]"
| "press_code CodeOther = []"

definition press_buttons :: "mouse \<Rightarrow> action list" where
  "press_buttons m =
     (case m_buttons m of
        None \<Rightarrow> []
      | Some b \<Rightarrow> if b \<ge> 0 then [Mouse_press b] else [Mouse_release (- b)])"

definition get_or :: "int option \<Rightarrow> int \<Rightarrow> int" where
  "get_or v d = (case v of None \<Rightarrow> d | Some w \<Rightarrow> w)"

definition press_sound :: "mouse \<Rightarrow> action list" where
  "press_sound m =
     (case m_tone m of
        Some t \<Rightarrow> if t > 0 then [Stop_tone, Start_tone t] else [Stop_tone]
      | None \<Rightarrow> (case m_play m of Some f \<Rightarrow> [Play_file f] | None \<Rightarrow> []))"

fun press_item :: "item \<Rightarrow> action list" where
  "press_item (KeyCode c) = (if c \<ge> 0 then [Keyboard_press c] else [Keyboard_release (- c)])"
| "press_item (Delay d) = [Sleep d]"
| "press_item (TypeText s) = [Layout_write s]"
| "press_item (MediaCodes cs) = concat (map press_code cs)"
| "press_item (MouseAction m) =
     press_buttons m
     @ [Mouse_move (get_or (m_x m) 0) (get_or (m_y m) 0) (get_or (m_wheel m) 0)]
     @ press_sound m"
| "press_item OtherItem = []"

fun release_item :: "item \<Rightarrow> action list" where
  "release_item (KeyCode c) = (if c \<ge> 0 then [Keyboard_release c] else [])"
| "release_item (MouseAction m) =
     (case m_buttons m of
        None \<Rightarrow> []
      | Some b \<Rightarrow> if b \<ge> 0 then [Mouse_release b] else [])"
| "release_item (Delay d) = []"
| "release_item (TypeText s) = []"
| "release_item (MediaCodes cs) = []"
| "release_item OtherItem = []"

definition press_edge :: "item list \<Rightarrow> action list" where
  "press_edge sequence = concat (map press_item sequence)"

definition release_edge :: "item list \<Rightarrow> action list" where
  "release_edge sequence = concat (map release_item sequence) @ [Consumer_release]"

subsection \<open>The main loop\<close>

text \<open>
  The encoder part of one iteration. \<open>%\<close> by zero raises; Python's \<open>%\<close> with a positive
  divisor is the \<open>mod\<close> of \<open>int\<close>.
\<close>

definition encoder :: "App list \<Rightarrow> int \<Rightarrow> state \<Rightarrow> exn + (action list \<times> state)" where
  "encoder apps position st =
     (if Some position \<noteq> last_position st
      then (if length apps = 0 then Inl ZeroDivisionError
            else (let i = nat (position mod int (length apps))
                  in Inr (switch (apps ! i), \<lparr>app_index = i, last_position = Some position\<rparr>)))
      else Inr ([], st))"

text \<open>
  The branch for the "Dragon Drop" app. \<open>result\<close> is what \<open>dragondrop_game.run_game\<close>
  returns when it is called.
\<close>

definition game_event :: "string \<Rightarrow> event \<Rightarrow> action list" where
  "game_event result ev =
     (if pressed ev \<and> key_number ev = GAME_KEY
      then [Print Starting_game, Run_game]
           @ (if result = ''game_ended''
              then [Print Exiting_game, Set_rotation 0, Set_root_group_macro_menu,
                    Display_refresh]
              else [])
      else if pressed ev then [Print (Skipping_game (key_number ev))]
      else [])"

text \<open>The branch for a macro app; \<open>continue\<close> ends the iteration with nothing done.\<close>

definition macro_event :: "App \<Rightarrow> event \<Rightarrow> action list" where
  "macro_event a ev =
     (if key_number ev \<ge> length (macros a) then []
      else (let sequence = snd (snd (macros a ! key_number ev))
            in if pressed ev then press_edge sequence else release_edge sequence))"

text \<open>The key event part of one iteration; \<open>apps[app_index]\<close> raises out of range.\<close>

definition key_event ::
  "App list \<Rightarrow> string \<Rightarrow> event option \<Rightarrow> state \<Rightarrow> exn + (action list \<times> state)" where
  "key_event apps result e st =
     (case e of
        None \<Rightarrow> Inr ([], st)
      | Some ev \<Rightarrow>
          if int (app_index st) = int (length apps) - 1 then Inr (game_event result ev, st)
          else if app_index st < length apps
               then Inr (macro_event (apps ! app_index st) ev, st)
               else Inl IndexError)"

definition loop_iteration ::
  "App list \<Rightarrow> string \<Rightarrow> int \<Rightarrow> event option \<Rightarrow> state \<Rightarrow> exn + (action list \<times> state)" where
  "loop_iteration apps result position e st =
     (case encoder apps position st of
        Inl x \<Rightarrow> Inl x
      | Inr (acts, st') \<Rightarrow>
          (case key_event apps result e st' of
             Inl x \<Rightarrow> Inl x
           | Inr (acts', st'') \<Rightarrow> Inr (acts @ acts', st'')))"

subsection \<open>Start-up: loading the macro files\<close>











subsection \<open>Notions used in the statements\<close>

text \<open>The actions that concern the tone generator, and the one that plays a file.\<close>

fun is_tone_action :: "action \<Rightarrow> bool" where
  "is_tone_action (Start_tone f) = True"
| "is_tone_action Stop_tone = True"
| "is_tone_action _ = False"

fun is_play_action :: "action \<Rightarrow> bool" where
  "is_play_action (Play_file f) = True"
| "is_play_action _ = False"

text \<open>What is left of a trace when only its tone and play actions are kept, in order.\<close>

definition sound_actions :: "action list \<Rightarrow> action list" where
  "sound_actions acts = filter (\<lambda>a. is_tone_action a \<or> is_play_action a) acts"











section \<open>Properties\<close>

subsection \<open>Helper lemmas on the interpreter\<close>

lemma press_code_no_keyboard_press: "Keyboard_press c \<notin> set (press_code x)"
  by (cases x) simp_all

lemma count_press_item:
  "count_list (press_item x) (Keyboard_press c) = (if x = KeyCode c \<and> c \<ge> 0 then 1 else 0)"
proof (cases x)
  case (MediaCodes cs)
  have "Keyboard_press c \<notin> set (concat (map press_code cs))"
    by (induction cs) (simp_all add: press_code_no_keyboard_press)
  then show ?thesis using MediaCodes by (simp add: count_list_0_iff)
next
  case (MouseAction m)
  then show ?thesis
    by (simp add: press_buttons_def press_sound_def split: option.splits)
qed auto

lemma count_release_item:
  "count_list (release_item x) (Keyboard_release c) = (if x = KeyCode c \<and> c \<ge> 0 then 1 else 0)"
  by (cases x) (auto split: option.splits)

lemma count_press_walk:
  "c \<ge> 0 \<Longrightarrow>
   count_list (concat (map press_item xs)) (Keyboard_press c) = count_list xs (KeyCode c)"
  by (induction xs) (simp_all add: count_press_item)

lemma count_release_walk:
  "c \<ge> 0 \<Longrightarrow>
   count_list (concat (map release_item xs)) (Keyboard_release c) = count_list xs (KeyCode c)"
  by (induction xs) (simp_all add: count_release_item)

lemma release_item_no_consumer_release: "count_list (release_item x) Consumer_release = 0"
  by (cases x) (auto split: option.splits)

lemma release_walk_no_consumer_release:
  "count_list (concat (map release_item xs)) Consumer_release = 0"
  by (induction xs) (simp_all add: release_item_no_consumer_release)

lemma press_buttons_no_sound:
  "a \<in> set (press_buttons m) \<Longrightarrow> \<not> is_tone_action a \<and> \<not> is_play_action a"
  by (auto simp: press_buttons_def split: option.splits if_splits)

lemma sound_of_press_item:
  "(\<exists>a \<in> set (press_item (MouseAction m)). is_play_action a)
     = (\<exists>a \<in> set (press_sound m). is_play_action a)"
  "(\<exists>a \<in> set (press_item (MouseAction m)). is_tone_action a)
     = (\<exists>a \<in> set (press_sound m). is_tone_action a)"
  by (auto dest: press_buttons_no_sound)

lemma sound_actions_press_buttons: "sound_actions (press_buttons m) = []"
  by (simp add: sound_actions_def press_buttons_def split: option.splits)

lemma sound_actions_press_sound: "sound_actions (press_sound m) = press_sound m"
  by (simp add: sound_actions_def press_sound_def split: option.splits)

lemma sound_actions_press_item:
  "sound_actions (press_item (MouseAction m)) = press_sound m"
  using sound_actions_press_buttons [of m] sound_actions_press_sound [of m]
  by (simp add: sound_actions_def)

subsection \<open>The interpreter\<close>

text \<open>
  C1, as the code has it. For a key code \<open>c > 0\<close>, the sequence \<open>[c, -c, text]\<close> does
  press \<open>c\<close>, release \<open>c\<close>, write the text when the key goes down. When the key goes up,
  the loop meets the item \<open>c\<close> again, which is not negative, and releases \<open>c\<close> once
  more, before the closing release of the consumer control: nothing records that \<open>-c\<close>
  released it already.
\<close>

theorem modifier_tap_edges:
  "c > 0 \<Longrightarrow>
   press_edge [KeyCode c, KeyCode (- c), TypeText s]
     = [Keyboard_press c, Keyboard_release c, Layout_write s]
   \<and> release_edge [KeyCode c, KeyCode (- c), TypeText s]
     = [Keyboard_release c, Consumer_release]"
  by (simp add: press_edge_def release_edge_def)

theorem modifier_tap_edges_witness:
  "(224::int) > 0
   \<and> press_edge [KeyCode 224, KeyCode (- 224), TypeText ''x'']
     = [Keyboard_press 224, Keyboard_release 224, Layout_write ''x'']
   \<and> release_edge [KeyCode 224, KeyCode (- 224), TypeText ''x'']
     = [Keyboard_release 224, Consumer_release]"
  using modifier_tap_edges [of 224 "''x''"] by simp

text \<open>
  C1, as the claim states it, fails with the key code 224 (left control): the press edge is
  as claimed, but the release edge does release 224.
\<close>

theorem modifier_tap_release_counterexample:
  "\<not> (press_edge [KeyCode 224, KeyCode (- 224), TypeText ''x'']
        = [Keyboard_press 224, Keyboard_release 224, Layout_write ''x'']
      \<and> Keyboard_release 224 \<notin> set (release_edge [KeyCode 224, KeyCode (- 224), TypeText ''x'']))"
  by (simp add: release_edge_def)

text \<open>
  C2. If a sequence contains the key code \<open>c \<ge> 0\<close>, the press edge presses \<open>c\<close> and
  the release edge releases \<open>c\<close>; each does so once for every occurrence of \<open>c\<close> in the
  sequence.
\<close>

theorem key_code_press_release_paired:
  "KeyCode c \<in> set sequence \<Longrightarrow> c \<ge> 0 \<Longrightarrow>
   Keyboard_press c \<in> set (press_edge sequence)
   \<and> Keyboard_release c \<in> set (release_edge sequence)
   \<and> count_list (press_edge sequence) (Keyboard_press c) = count_list sequence (KeyCode c)
   \<and> count_list (release_edge sequence) (Keyboard_release c) = count_list sequence (KeyCode c)"
proof -
  assume mem: "KeyCode c \<in> set sequence" and nn: "c \<ge> 0"
  have p: "count_list (press_edge sequence) (Keyboard_press c) = count_list sequence (KeyCode c)"
    using nn by (simp add: press_edge_def count_press_walk)
  have r: "count_list (release_edge sequence) (Keyboard_release c) = count_list sequence (KeyCode c)"
    using nn by (simp add: release_edge_def count_release_walk)
  have "Keyboard_press c \<in> set (press_item (KeyCode c))"
    using nn by simp
  with mem have "Keyboard_press c \<in> set (press_edge sequence)"
    unfolding press_edge_def set_concat set_map by blast
  moreover have "Keyboard_release c \<in> set (release_item (KeyCode c))"
    using nn by simp
  with mem have "Keyboard_release c \<in> set (release_edge sequence)"
    unfolding release_edge_def set_append set_concat set_map by blast
  ultimately show ?thesis using p r by simp
qed

theorem key_code_press_release_paired_witness:
  "KeyCode 5 \<in> set [KeyCode 224, KeyCode 5, TypeText ''t''] \<and> (5::int) \<ge> 0
   \<and> Keyboard_press 5 \<in> set (press_edge [KeyCode 224, KeyCode 5, TypeText ''t''])
   \<and> Keyboard_release 5 \<in> set (release_edge [KeyCode 224, KeyCode 5, TypeText ''t''])"
  using key_code_press_release_paired [of 5 "[KeyCode 224, KeyCode 5, TypeText ''t'']"]
  by simp

text \<open>
  C3. For every sequence, the empty one included, the actions of the release edge end with
  the release of the consumer control, and that action occurs exactly once among them.
\<close>

theorem release_edge_ends_with_one_consumer_release:
  "last (release_edge sequence) = Consumer_release
   \<and> count_list (release_edge sequence) Consumer_release = 1"
  by (simp add: release_edge_def release_walk_no_consumer_release)

text \<open>
  C6. On the press edge of a list item, an integer code at any place of the list does the
  release of the consumer control and then the press of that code, and a float at any
  place does a sleep of that duration, between what the codes before it and the codes
  after it do. The release edge does nothing for the item itself. For \<open>[7, 0.1, 8]\<close> the
  press edge is release, press 7, sleep 0.1, release, press 8, and the release edge of a
  sequence with only this item is the closing release alone.
\<close>

theorem media_codes_press_only:
  "press_item (MediaCodes (cs @ CodeInt c # cs'))
     = press_item (MediaCodes cs) @ [Consumer_release, Consumer_press c]
       @ press_item (MediaCodes cs')
   \<and> press_item (MediaCodes (cs @ CodeFloat d # cs'))
     = press_item (MediaCodes cs) @ [Sleep d] @ press_item (MediaCodes cs')
   \<and> release_item (MediaCodes cs) = []
   \<and> press_item (MediaCodes [CodeInt 7, CodeFloat 0.1, CodeInt 8])
     = [Consumer_release, Consumer_press 7, Sleep 0.1, Consumer_release, Consumer_press 8]
   \<and> release_edge [MediaCodes [CodeInt 7, CodeFloat 0.1, CodeInt 8]] = [Consumer_release]"
  by (simp add: release_edge_def)

text \<open>
  C7. On the press edge of a dict item, the tone and play actions done are exactly these,
  in this order: if \<open>'tone'\<close> is present with value \<open>t > 0\<close>, stop the current tone and
  start the tone \<open>t\<close>; if it is present with \<open>t \<le> 0\<close>, stop the tone and nothing else; if
  it is absent and \<open>'play'\<close> is present, play that file; if both are absent, nothing. So
  with \<open>'tone'\<close> present no file is played whatever \<open>'play'\<close> holds; a file is played
  exactly when \<open>'play'\<close> is present and \<open>'tone'\<close> is absent; and one item never does both
  a tone action and a play action.
\<close>

theorem tone_and_play_exclusive:
  "(m_tone m = Some t \<longrightarrow>
      sound_actions (press_item (MouseAction m))
        = (if t > 0 then [Stop_tone, Start_tone t] else [Stop_tone]))
   \<and> (m_tone m = None \<longrightarrow>
      sound_actions (press_item (MouseAction m))
        = (case m_play m of Some f \<Rightarrow> [Play_file f] | None \<Rightarrow> []))
   \<and> (m_tone m = Some t \<longrightarrow>
      (if t > 0 then Start_tone t \<in> set (press_item (MouseAction m))
       else Stop_tone \<in> set (press_item (MouseAction m)))
      \<and> \<not> (\<exists>a \<in> set (press_item (MouseAction m)). is_play_action a))
   \<and> ((\<exists>a \<in> set (press_item (MouseAction m)). is_play_action a)
        \<longleftrightarrow> (m_play m \<noteq> None \<and> m_tone m = None))
   \<and> \<not> ((\<exists>a \<in> set (press_item (MouseAction m)). is_tone_action a)
        \<and> (\<exists>a \<in> set (press_item (MouseAction m)). is_play_action a))"
proof -
  have exact: "(m_tone m = Some t \<longrightarrow>
      sound_actions (press_item (MouseAction m))
        = (if t > 0 then [Stop_tone, Start_tone t] else [Stop_tone]))
   \<and> (m_tone m = None \<longrightarrow>
      sound_actions (press_item (MouseAction m))
        = (case m_play m of Some f \<Rightarrow> [Play_file f] | None \<Rightarrow> []))"
    unfolding sound_actions_press_item by (simp add: press_sound_def)
  have rest: "(m_tone m = Some t \<longrightarrow>
      (if t > 0 then Start_tone t \<in> set (press_item (MouseAction m))
       else Stop_tone \<in> set (press_item (MouseAction m)))
      \<and> \<not> (\<exists>a \<in> set (press_item (MouseAction m)). is_play_action a))
   \<and> ((\<exists>a \<in> set (press_item (MouseAction m)). is_play_action a)
        \<longleftrightarrow> (m_play m \<noteq> None \<and> m_tone m = None))
   \<and> \<not> ((\<exists>a \<in> set (press_item (MouseAction m)). is_tone_action a)
        \<and> (\<exists>a \<in> set (press_item (MouseAction m)). is_play_action a))"
  proof (cases "m_tone m")
    case None
    then show ?thesis
      unfolding sound_of_press_item by (cases "m_play m") (simp_all add: press_sound_def)
  next
    case (Some u)
    have "Start_tone u \<in> set (press_sound m)" if "u > 0"
      using that Some by (simp add: press_sound_def)
    moreover have "Stop_tone \<in> set (press_sound m)"
      using Some by (simp add: press_sound_def)
    moreover have "\<not> (\<exists>a \<in> set (press_sound m). is_play_action a)"
      using Some by (simp add: press_sound_def)
    ultimately show ?thesis
      unfolding sound_of_press_item using Some by auto
  qed
  show ?thesis
    by (rule conjI [OF conjunct1 [OF exact] conjI [OF conjunct2 [OF exact] rest]])
qed

theorem tone_and_play_exclusive_witness:
  "sound_actions (press_item (MouseAction
      \<lparr>m_buttons = None, m_x = None, m_y = None, m_wheel = None,
       m_tone = Some 440, m_play = Some ''a.wav''\<rparr>)) = [Stop_tone, Start_tone 440]
   \<and> sound_actions (press_item (MouseAction
      \<lparr>m_buttons = Some 1, m_x = Some 2, m_y = None, m_wheel = None,
       m_tone = Some 0, m_play = Some ''a.wav''\<rparr>)) = [Stop_tone]
   \<and> sound_actions (press_item (MouseAction
      \<lparr>m_buttons = None, m_x = None, m_y = None, m_wheel = None,
       m_tone = None, m_play = Some ''a.wav''\<rparr>)) = [Play_file ''a.wav'']
   \<and> press_item (MouseAction
      \<lparr>m_buttons = Some 1, m_x = Some 2, m_y = None, m_wheel = None,
       m_tone = Some 0, m_play = Some ''a.wav''\<rparr>)
     = [Mouse_press 1, Mouse_move 2 0 0, Stop_tone]"
proof -
  have a: "sound_actions (press_item (MouseAction
      \<lparr>m_buttons = None, m_x = None, m_y = None, m_wheel = None,
       m_tone = Some 440, m_play = Some ''a.wav''\<rparr>)) = [Stop_tone, Start_tone 440]"
    using tone_and_play_exclusive
      [of "\<lparr>m_buttons = None, m_x = None, m_y = None, m_wheel = None,
       m_tone = Some 440, m_play = Some ''a.wav''\<rparr>" 440]
    by simp
  have b: "sound_actions (press_item (MouseAction
      \<lparr>m_buttons = Some 1, m_x = Some 2, m_y = None, m_wheel = None,
       m_tone = Some 0, m_play = Some ''a.wav''\<rparr>)) = [Stop_tone]"
    using tone_and_play_exclusive
      [of "\<lparr>m_buttons = Some 1, m_x = Some 2, m_y = None, m_wheel = None,
       m_tone = Some 0, m_play = Some ''a.wav''\<rparr>" 0]
    by simp
  have c: "sound_actions (press_item (MouseAction
      \<lparr>m_buttons = None, m_x = None, m_y = None, m_wheel = None,
       m_tone = None, m_play = Some ''a.wav''\<rparr>)) = [Play_file ''a.wav'']"
    using tone_and_play_exclusive
      [of "\<lparr>m_buttons = None, m_x = None, m_y = None, m_wheel = None,
       m_tone = None, m_play = Some ''a.wav''\<rparr>" 0]
    by simp
  have d: "press_item (MouseAction
      \<lparr>m_buttons = Some 1, m_x = Some 2, m_y = None, m_wheel = None,
       m_tone = Some 0, m_play = Some ''a.wav''\<rparr>)
     = [Mouse_press 1, Mouse_move 2 0 0, Stop_tone]"
    by (simp add: press_buttons_def press_sound_def get_or_def)
  from a b c d show ?thesis by (intro conjI)
qed

subsection \<open>The main loop\<close>

lemma mod_index_in_range:
  "n > 0 \<Longrightarrow> nat (p mod int n) < n \<and> int (nat (p mod int n)) = p mod int n"
  by (simp add: nat_less_iff)

text \<open>
  C4. With \<open>N > 0\<close> apps, when the encoder position read is \<open>p\<close> and differs from the last
  one, the loop switches to the app of index \<open>p mod N\<close>, which lies in \<open>[0, N)\<close> for every
  integer \<open>p\<close>, negative ones included, and remembers \<open>p\<close>.
\<close>

theorem encoder_selects_position_mod_count:
  "apps \<noteq> [] \<Longrightarrow> last_position st \<noteq> Some p \<Longrightarrow>
   (\<exists>st'. encoder apps p st = Inr (switch (apps ! app_index st'), st')
      \<and> int (app_index st') = p mod int (length apps)
      \<and> app_index st' < length apps
      \<and> last_position st' = Some p)"
  using mod_index_in_range [of "length apps" p] by (simp add: encoder_def Let_def)

theorem encoder_selects_position_mod_count_witness:
  "[\<lparr>name = ''A'', macros = []\<rparr>, \<lparr>name = ''B'', macros = []\<rparr>,
    \<lparr>name = ''Dragon Drop'', macros = []\<rparr>] \<noteq> []
   \<and> last_position \<lparr>app_index = 0, last_position = Some 0\<rparr> \<noteq> Some (- 1)
   \<and> (\<exists>st'. encoder [\<lparr>name = ''A'', macros = []\<rparr>, \<lparr>name = ''B'', macros = []\<rparr>,
                        \<lparr>name = ''Dragon Drop'', macros = []\<rparr>] (- 1)
                \<lparr>app_index = 0, last_position = Some 0\<rparr>
            = Inr (switch \<lparr>name = ''Dragon Drop'', macros = []\<rparr>, st')
          \<and> app_index st' = 2)"
  using encoder_selects_position_mod_count
    [of "[\<lparr>name = ''A'', macros = []\<rparr>, \<lparr>name = ''B'', macros = []\<rparr>,
          \<lparr>name = ''Dragon Drop'', macros = []\<rparr>]"
        "\<lparr>app_index = 0, last_position = Some 0\<rparr>" "- 1"]
  by (auto simp: nat_eq_iff)

text \<open>
  C5. While an app other than the last one (the game) is selected, a key event whose key
  number is not below the number of that app's macros does no action and leaves the loop's
  variables as they are; so does the whole iteration when the encoder has not moved.
\<close>

theorem key_beyond_macros_ignored:
  "app_index st < length apps \<Longrightarrow> int (app_index st) \<noteq> int (length apps) - 1 \<Longrightarrow>
   key_number ev \<ge> length (macros (apps ! app_index st)) \<Longrightarrow>
   key_event apps result (Some ev) st = Inr ([], st)
   \<and> (last_position st = Some position \<longrightarrow>
        loop_iteration apps result position (Some ev) st = Inr ([], st))"
  by (simp add: key_event_def macro_event_def loop_iteration_def encoder_def)

theorem key_beyond_macros_ignored_witness:
  "app_index \<lparr>app_index = 0, last_position = Some 0\<rparr>
     < length [\<lparr>name = ''B'', macros = [(0x004000, ''Up'', [KeyCode 82])]\<rparr>,
               \<lparr>name = ''Dragon Drop'', macros = []\<rparr>]
   \<and> int (app_index \<lparr>app_index = 0, last_position = Some 0\<rparr>)
     \<noteq> int (length [\<lparr>name = ''B'', macros = [(0x004000, ''Up'', [KeyCode 82])]\<rparr>,
                      \<lparr>name = ''Dragon Drop'', macros = []\<rparr>]) - 1
   \<and> key_number \<lparr>key_number = 5, pressed = True\<rparr>
     \<ge> length (macros \<lparr>name = ''B'', macros = [(0x004000, ''Up'', [KeyCode 82])]\<rparr>)
   \<and> last_position \<lparr>app_index = 0, last_position = Some 0\<rparr> = Some 0
   \<and> loop_iteration [\<lparr>name = ''B'', macros = [(0x004000, ''Up'', [KeyCode 82])]\<rparr>,
                      \<lparr>name = ''Dragon Drop'', macros = []\<rparr>]
        ''game_ended'' 0 (Some \<lparr>key_number = 5, pressed = True\<rparr>)
        \<lparr>app_index = 0, last_position = Some 0\<rparr>
     = Inr ([], \<lparr>app_index = 0, last_position = Some 0\<rparr>)"
  using key_beyond_macros_ignored
    [of "\<lparr>app_index = 0, last_position = Some 0\<rparr>"
        "[\<lparr>name = ''B'', macros = [(0x004000, ''Up'', [KeyCode 82])]\<rparr>,
          \<lparr>name = ''Dragon Drop'', macros = []\<rparr>]"
        "\<lparr>key_number = 5, pressed = True\<rparr>" "''game_ended''" 0]
  by simp

text \<open>
  C8. With the last app (the game) selected, a press of the game key starts the game; when
  \<open>run_game\<close> returns \<open>"game_ended"\<close>, the loop sets the display rotation to 0, installs
  the macro menu group as the root group and refreshes the display, each once and in this
  order, and the loop's variables, the app index among them, are as they were before.
\<close>

theorem game_ended_restores_menu:
  "int (app_index st) = int (length apps) - 1 \<Longrightarrow> pressed ev \<Longrightarrow>
   key_number ev = GAME_KEY \<Longrightarrow>
   key_event apps ''game_ended'' (Some ev) st
     = Inr ([Print Starting_game, Run_game, Print Exiting_game, Set_rotation 0,
             Set_root_group_macro_menu, Display_refresh], st)"
  by (simp add: key_event_def game_event_def)

theorem game_ended_restores_menu_witness:
  "int (app_index \<lparr>app_index = 1, last_position = Some 1\<rparr>)
     = int (length [\<lparr>name = ''B'', macros = []\<rparr>, \<lparr>name = ''Dragon Drop'', macros = []\<rparr>]) - 1
   \<and> pressed \<lparr>key_number = 11, pressed = True\<rparr>
   \<and> key_number \<lparr>key_number = 11, pressed = True\<rparr> = GAME_KEY
   \<and> key_event [\<lparr>name = ''B'', macros = []\<rparr>, \<lparr>name = ''Dragon Drop'', macros = []\<rparr>]
        ''game_ended'' (Some \<lparr>key_number = 11, pressed = True\<rparr>)
        \<lparr>app_index = 1, last_position = Some 1\<rparr>
     = Inr ([Print Starting_game, Run_game, Print Exiting_game, Set_rotation 0,
             Set_root_group_macro_menu, Display_refresh],
            \<lparr>app_index = 1, last_position = Some 1\<rparr>)"
  using game_ended_restores_menu
    [of "\<lparr>app_index = 1, last_position = Some 1\<rparr>"
        "[\<lparr>name = ''B'', macros = []\<rparr>, \<lparr>name = ''Dragon Drop'', macros = []\<rparr>]"
        "\<lparr>key_number = 11, pressed = True\<rparr>"]
  by (simp add: GAME_KEY_def)

subsection \<open>App.switch\<close>

lemma switch_key_no_refresh: "Display_refresh \<notin> set (switch_key a i)"
  by (simp add: switch_key_def)

text \<open>
  C10. Every call of \<open>switch\<close>, whatever the app, ends with: release all keyboard keys,
  release the consumer control, release all mouse buttons, stop the tone, show the pixels,
  refresh the display; the display is not refreshed before these releases.
\<close>

theorem switch_releases_before_refresh:
  "\<exists>pre. switch a = pre @ [Keyboard_release_all, Consumer_release, Mouse_release_all,
                            Stop_tone, Pixels_show, Display_refresh]
     \<and> Display_refresh \<notin> set pre"
  unfolding switch_def
  by (rule exI [of _ "[Set_text 13 (name a),
                       Set_rect_fill (if name a \<noteq> [] then 0xFFFFFF else 0x000000)]
                      @ concat (map (switch_key a) [0..<12])"])
     (simp add: switch_key_no_refresh)

subsection \<open>Start-up\<close>







end
